theory Spec2Isabelle
  imports Main
begin

section \<open>Data model (models.py, agents/llms.py)\<close>

text \<open>
  The enumeration \<open>LLM_Model\<close> of agents/llms.py (a plain \<open>Enum\<close>, not a \<open>str\<close>
  subclass) with the value of each member, in declaration order.
\<close>

datatype LLM_Model = GPT_41_MINI | GPT_OSS_OLLAMA | GPT_OSS_OPEN | DEEPSEEK_V3 | DEEPSEEK_V3_OLLAMA

fun model_value :: "LLM_Model \<Rightarrow> string" where
  "model_value GPT_41_MINI = ''gpt-4.1-mini''"
| "model_value GPT_OSS_OLLAMA = ''gpt-oss:20b-cloud''"
| "model_value GPT_OSS_OPEN = ''openai/gpt-oss-20b''"
| "model_value DEEPSEEK_V3 = ''deepseek/deepseek-chat-v3-0324''"
| "model_value DEEPSEEK_V3_OLLAMA = ''deepseek-v3.1:671b-cloud''"

definition LLM_Model_members :: "LLM_Model list" where
  "LLM_Model_members = [GPT_41_MINI, GPT_OSS_OLLAMA, GPT_OSS_OPEN, DEEPSEEK_V3, DEEPSEEK_V3_OLLAMA]"

text \<open>\<open>ActionType(str, Enum)\<close> of models.py: member names and their string values.\<close>

datatype ActionType = DIALOGUE | MOVEMENT | EMOTION | INTERACTION | STORY_EVENT

fun action_value :: "ActionType \<Rightarrow> string" where
  "action_value DIALOGUE = ''dialogue''"
| "action_value MOVEMENT = ''movement''"
| "action_value EMOTION = ''emotion''"
| "action_value INTERACTION = ''interaction''"
| "action_value STORY_EVENT = ''story_event''"

fun action_name :: "ActionType \<Rightarrow> string" where
  "action_name DIALOGUE = ''DIALOGUE''"
| "action_name MOVEMENT = ''MOVEMENT''"
| "action_name EMOTION = ''EMOTION''"
| "action_name INTERACTION = ''INTERACTION''"
| "action_name STORY_EVENT = ''STORY_EVENT''"

definition ActionType_members :: "ActionType list" where
  "ActionType_members = [DIALOGUE, MOVEMENT, EMOTION, INTERACTION, STORY_EVENT]"

text \<open>
  A naive \<open>datetime\<close> (what \<open>datetime.now()\<close> returns) and its \<open>isoformat()\<close>:
  \<open>YYYY-MM-DDTHH:MM:SS\<close>, followed by \<open>.ffffff\<close> exactly when the microsecond is not 0.
\<close>

record datetime =
  year :: nat
  month :: nat
  day :: nat
  hour :: nat
  minute :: nat
  second :: nat
  microsecond :: nat

definition digit_char :: "nat \<Rightarrow> char" where
  "digit_char d = char_of (48 + d mod 10)"

primrec zpad :: "nat \<Rightarrow> nat \<Rightarrow> string" where
  "zpad 0 n = []"
| "zpad (Suc w) n = zpad w (n div 10) @ [digit_char n]"

definition isoformat :: "datetime \<Rightarrow> string" where
  "isoformat d =
     zpad 4 (year d) @ ''-'' @ zpad 2 (month d) @ ''-'' @ zpad 2 (day d) @ ''T'' @
     zpad 2 (hour d) @ '':'' @ zpad 2 (minute d) @ '':'' @ zpad 2 (second d) @
     (if microsecond d = 0 then [] else ''.'' @ zpad 6 (microsecond d))"

text \<open>
  A finite binary floating-point number, kept as mantissa and exponent; the program only
  stores and passes such values on, it never computes with them.
\<close>

datatype pyfloat = PyFloat int int

text \<open>
  The Python values that sit in the positions typed \<open>Any\<close> (world-state values, memory
  records, conversation records and response metadata). A \<open>dict\<close> is an association list
  in insertion order with unique keys. \<open>PModel\<close> is a member of \<open>LLM_Model\<close>:
  \<open>NPCAgent.generate_dialogue\<close> puts \<open>self.model\<close> into the response metadata.
\<close>

datatype pyval =
    PNone
  | PBool bool
  | PInt int
  | PFloat pyfloat
  | PStr string
  | PList "pyval list"
  | PDict "(string \<times> pyval) list"
  | PDatetime datetime
  | PModel LLM_Model

type_synonym pydict = "(string \<times> pyval) list"

text \<open>\<open>d[k] = v\<close>: an existing key keeps its position, a new key goes last.\<close>

fun dict_set :: "('k \<times> 'v) list \<Rightarrow> 'k \<Rightarrow> 'v \<Rightarrow> ('k \<times> 'v) list" where
  "dict_set [] k v = [(k, v)]"
| "dict_set ((k', v') # d) k v = (if k' = k then (k, v) # d else (k', v') # dict_set d k v)"

text \<open>\<open>d.get(k)\<close>.\<close>

definition dict_get :: "('k \<times> 'v) list \<Rightarrow> 'k \<Rightarrow> 'v option" where
  "dict_get d k = map_of d k"

text \<open>
  The list fields of \<open>StoryState\<close> hold list objects, and the program both rebinds a field
  to a list object of the caller (\<open>set_plot_points\<close>, \<open>set_active_goals\<close>) and changes a
  list object in place (\<open>append\<close>, \<open>remove\<close>). A list object is therefore a reference:
  \<open>Own k\<close> is the \<open>k\<close>-th list the program creates itself (by a default factory or when
  it loads a file), created empty unless stated; \<open>Caller k xs\<close> is the \<open>k\<close>-th list of the
  caller, created with the entries \<open>xs\<close>. The store \<open>lists\<close> holds the present entries of
  every list object changed or filled since its creation; the model carries it in the story
  state, whose fields it serves. A caller can hold \<open>Own k\<close> only for a list that exists.
\<close>

datatype ref = Own nat | Caller nat "string list"

fun created_as :: "ref \<Rightarrow> string list" where
  "created_as (Own k) = []"
| "created_as (Caller k xs) = xs"

definition deref :: "(ref \<rightharpoonup> string list) \<Rightarrow> ref \<Rightarrow> string list" where
  "deref hp r = (case hp r of None \<Rightarrow> created_as r | Some xs \<Rightarrow> xs)"

record StoryState =
  plot_points_ref :: ref
  completed_events_ref :: ref
  active_goals_ref :: ref
  lists :: "ref \<rightharpoonup> string list"
  next_own :: nat
  world_state :: pydict
  timestamp :: datetime

text \<open>The entries a field shows: those of the list object it holds.\<close>

definition plot_points :: "StoryState \<Rightarrow> string list" where
  "plot_points ss = deref (lists ss) (plot_points_ref ss)"

definition completed_events :: "StoryState \<Rightarrow> string list" where
  "completed_events ss = deref (lists ss) (completed_events_ref ss)"

definition active_goals :: "StoryState \<Rightarrow> string list" where
  "active_goals ss = deref (lists ss) (active_goals_ref ss)"

text \<open>A change of the list object \<open>r\<close> in place: every field holding \<open>r\<close> shows it.\<close>

definition list_assign :: "ref \<Rightarrow> string list \<Rightarrow> StoryState \<Rightarrow> StoryState" where
  "list_assign r xs ss = ss\<lparr>lists := (lists ss)(r \<mapsto> xs)\<rparr>"

record NPCMemory =
  npc_name :: string
  memories :: "pyval list"
  important_events :: "string list"
  player_interactions :: int

text \<open>
  \<open>GameSettings.llm_model\<close> is declared \<open>str | None\<close>, and the program also stores a
  member of \<open>LLM_Model\<close> there (example_usage.py; \<open>save_state\<close> tests for it).
\<close>

datatype llm_setting = NoModel | ModelToken string | ModelMember LLM_Model

record GameSettings =
  llm_model :: llm_setting
  temperature :: pyfloat
  max_tokens :: int
  story_style :: string
  difficulty :: string
  custom_instructions :: "string option"

definition GameSettings_default :: GameSettings where
  "GameSettings_default =
     \<lparr>llm_model = NoModel, temperature = PyFloat 8 (-1) , max_tokens = 500,
      story_style = ''adventure'', difficulty = ''medium'', custom_instructions = None\<rparr>"

section \<open>Story manager (story/story_manager.py)\<close>

record StoryManager =
  settings :: GameSettings
  story_state :: StoryState
  npc_memories :: "(string \<times> NPCMemory) list"
  conversation_history :: "pyval list"

text \<open>
  \<open>StoryManager.__init__\<close>; \<open>now\<close> is the clock reading taken by \<open>StoryState()\<close>, whose
  default factories create three empty lists.
\<close>

definition StoryManager_init :: "GameSettings \<Rightarrow> datetime \<Rightarrow> StoryManager" where
  "StoryManager_init st now =
     \<lparr>settings = st,
      story_state = \<lparr>plot_points_ref = Own 0, completed_events_ref = Own 1,
                      active_goals_ref = Own 2, lists = Map.empty, next_own = 3,
                      world_state = [], timestamp = now\<rparr>,
      npc_memories = [],
      conversation_history = []\<rparr>"

text \<open>\<open>self.story_state.plot_points = plot_points\<close>: the field holds the caller's list.\<close>

definition set_plot_points :: "ref \<Rightarrow> StoryManager \<Rightarrow> StoryManager" where
  "set_plot_points pps m = m\<lparr>story_state := (story_state m)\<lparr>plot_points_ref := pps\<rparr>\<rparr>"

text \<open>\<open>self.story_state.plot_points.append(plot_point)\<close>: the list object is extended.\<close>

definition add_plot_point :: "string \<Rightarrow> StoryManager \<Rightarrow> StoryManager" where
  "add_plot_point pp m =
     m\<lparr>story_state := list_assign (plot_points_ref (story_state m))
                           (plot_points (story_state m) @ [pp]) (story_state m)\<rparr>"

definition complete_event :: "string \<Rightarrow> StoryManager \<Rightarrow> StoryManager" where
  "complete_event event_name m =
     (if event_name \<notin> set (completed_events (story_state m))
      then m\<lparr>story_state := list_assign (completed_events_ref (story_state m))
                                (completed_events (story_state m) @ [event_name]) (story_state m)\<rparr>
      else m)"

text \<open>\<open>self.story_state.active_goals = goals\<close>: the field holds the caller's list.\<close>

definition set_active_goals :: "ref \<Rightarrow> StoryManager \<Rightarrow> StoryManager" where
  "set_active_goals goals m = m\<lparr>story_state := (story_state m)\<lparr>active_goals_ref := goals\<rparr>\<rparr>"

definition add_active_goal :: "string \<Rightarrow> StoryManager \<Rightarrow> StoryManager" where
  "add_active_goal goal m =
     (if goal \<notin> set (active_goals (story_state m))
      then m\<lparr>story_state := list_assign (active_goals_ref (story_state m))
                                (active_goals (story_state m) @ [goal]) (story_state m)\<rparr>
      else m)"

text \<open>\<open>list.remove(goal)\<close> deletes the first occurrence of \<open>goal\<close>: \<open>remove1\<close>.\<close>

definition complete_goal :: "string \<Rightarrow> StoryManager \<Rightarrow> StoryManager" where
  "complete_goal goal m =
     (if goal \<in> set (active_goals (story_state m))
      then m\<lparr>story_state := list_assign (active_goals_ref (story_state m))
                                (remove1 goal (active_goals (story_state m))) (story_state m)\<rparr>
      else m)"

definition update_world_state :: "string \<Rightarrow> pyval \<Rightarrow> StoryManager \<Rightarrow> StoryManager" where
  "update_world_state key v m =
     m\<lparr>story_state := (story_state m)
         \<lparr>world_state := dict_set (world_state (story_state m)) key v\<rparr>\<rparr>"

definition get_world_state :: "string \<Rightarrow> pyval \<Rightarrow> StoryManager \<Rightarrow> pyval" where
  "get_world_state key dflt m =
     (case dict_get (world_state (story_state m)) key of None \<Rightarrow> dflt | Some v \<Rightarrow> v)"

text \<open>
  \<open>xs[-100:]\<close>: the last 100 elements, the whole list when it has fewer.
\<close>

definition last_n :: "nat \<Rightarrow> 'a list \<Rightarrow> 'a list" where
  "last_n n xs = drop (length xs - n) xs"

text \<open>\<open>metadata or {}\<close>: \<open>None\<close> and the empty dict both give the empty dict.\<close>

definition metadata_or_empty :: "pydict option \<Rightarrow> pydict" where
  "metadata_or_empty md = (case md of None \<Rightarrow> [] | Some d \<Rightarrow> d)"

definition exchange_record :: "datetime \<Rightarrow> string \<Rightarrow> string \<Rightarrow> string \<Rightarrow> pydict option \<Rightarrow> pyval" where
  "exchange_record now player_input nm npc_response md =
     PDict [(''timestamp'', PStr (isoformat now)),
            (''player_input'', PStr player_input),
            (''npc_name'', PStr nm),
            (''npc_response'', PStr npc_response),
            (''metadata'', PDict (metadata_or_empty md))]"

text \<open>\<open>record_conversation\<close>; \<open>now\<close> is the clock reading of \<open>datetime.now()\<close>.\<close>

definition record_conversation ::
  "datetime \<Rightarrow> string \<Rightarrow> string \<Rightarrow> string \<Rightarrow> pydict option \<Rightarrow> StoryManager \<Rightarrow> StoryManager" where
  "record_conversation now player_input nm npc_response md m =
     (let h = conversation_history m @ [exchange_record now player_input nm npc_response md]
      in if length h > 100 then m\<lparr>conversation_history := last_n 100 h\<rparr>
         else m\<lparr>conversation_history := h\<rparr>)"

definition register_npc_memory :: "string \<Rightarrow> NPCMemory \<Rightarrow> StoryManager \<Rightarrow> StoryManager" where
  "register_npc_memory nm mem m = m\<lparr>npc_memories := dict_set (npc_memories m) nm mem\<rparr>"

definition get_npc_memory :: "string \<Rightarrow> StoryManager \<Rightarrow> NPCMemory option" where
  "get_npc_memory nm m = dict_get (npc_memories m) nm"

text \<open>
  One call of \<open>record_conversation\<close> as data, and a sequence of calls run in order.
\<close>

record conv_call =
  cc_now :: datetime
  cc_player_input :: string
  cc_npc_name :: string
  cc_npc_response :: string
  cc_metadata :: "pydict option"

definition record_call :: "StoryManager \<Rightarrow> conv_call \<Rightarrow> StoryManager" where
  "record_call m c =
     record_conversation (cc_now c) (cc_player_input c) (cc_npc_name c) (cc_npc_response c)
       (cc_metadata c) m"

definition call_record :: "conv_call \<Rightarrow> pyval" where
  "call_record c =
     exchange_record (cc_now c) (cc_player_input c) (cc_npc_name c) (cc_npc_response c)
       (cc_metadata c)"

definition record_all :: "StoryManager \<Rightarrow> conv_call list \<Rightarrow> StoryManager" where
  "record_all m cs = foldl record_call m cs"

text \<open>The mutators of the story state as data, and a sequence of them run in order.\<close>

datatype store_op =
    SetPlotPoints ref
  | AddPlotPoint string
  | CompleteEvent string
  | SetActiveGoals ref
  | AddActiveGoal string
  | CompleteGoal string
  | UpdateWorldState string pyval
  | RecordConversation conv_call
  | RegisterNpcMemory string NPCMemory

fun apply_store_op :: "StoryManager \<Rightarrow> store_op \<Rightarrow> StoryManager" where
  "apply_store_op m (SetPlotPoints pps) = set_plot_points pps m"
| "apply_store_op m (AddPlotPoint pp) = add_plot_point pp m"
| "apply_store_op m (CompleteEvent e) = complete_event e m"
| "apply_store_op m (SetActiveGoals gs) = set_active_goals gs m"
| "apply_store_op m (AddActiveGoal g) = add_active_goal g m"
| "apply_store_op m (CompleteGoal g) = complete_goal g m"
| "apply_store_op m (UpdateWorldState k v) = update_world_state k v m"
| "apply_store_op m (RecordConversation c) = record_call m c"
| "apply_store_op m (RegisterNpcMemory nm mem) = register_npc_memory nm mem m"

definition run_store_ops :: "StoryManager \<Rightarrow> store_op list \<Rightarrow> StoryManager" where
  "run_store_ops m ops = foldl apply_store_op m ops"

text \<open>
  The two ways an operation can bring a repeated entry into the active goals: a
  \<open>set_active_goals\<close> call given a list that has one, and an \<open>add_plot_point\<close> call that
  appends an entry already present to a list object held by both \<open>plot_points\<close> and
  \<open>active_goals\<close>. \<open>keeps_goals_distinct\<close> says that the operation, applied in the state
  \<open>m\<close>, is neither; \<open>goals_guarded\<close> says so of every operation of a sequence, each in the
  state the sequence has reached.
\<close>

fun keeps_goals_distinct :: "StoryManager \<Rightarrow> store_op \<Rightarrow> bool" where
  "keeps_goals_distinct m (SetActiveGoals gs) = distinct (deref (lists (story_state m)) gs)"
| "keeps_goals_distinct m (AddPlotPoint pp) =
     (plot_points_ref (story_state m) \<noteq> active_goals_ref (story_state m)
      \<or> pp \<notin> set (active_goals (story_state m)))"
| "keeps_goals_distinct m _ = True"

fun goals_guarded :: "StoryManager \<Rightarrow> store_op list \<Rightarrow> bool" where
  "goals_guarded m [] = True"
| "goals_guarded m (op # ops) = (keeps_goals_distinct m op \<and> goals_guarded (apply_store_op m op) ops)"

section \<open>Exceptions and JSON encoding\<close>

text \<open>
  The exceptions the modelled code can raise, each with its message; \<open>ClientError\<close> is
  whatever the chat-completion client raises. All of them are subclasses of \<open>Exception\<close>.
\<close>

datatype py_error =
    TypeError string
  | ValidationError string
  | AttributeError string
  | IndexError string
  | ImportError string
  | ClientError string

text \<open>\<open>str(e)\<close>.\<close>

fun error_text :: "py_error \<Rightarrow> string" where
  "error_text (TypeError s) = s"
| "error_text (ValidationError s) = s"
| "error_text (AttributeError s) = s"
| "error_text (IndexError s) = s"
| "error_text (ImportError s) = s"
| "error_text (ClientError s) = s"

text \<open>\<open>try: body  except Exception as e: handler(e)\<close>.\<close>

definition try_except :: "py_error + 'a \<Rightarrow> (py_error \<Rightarrow> py_error + 'a) \<Rightarrow> py_error + 'a" where
  "try_except body handler = (case body of Inl e \<Rightarrow> handler e | Inr v \<Rightarrow> Inr v)"

text \<open>A JSON document, as \<open>json.dump\<close> writes it and \<open>json.load\<close> reads it.\<close>

datatype json =
    JNull
  | JBool bool
  | JInt int
  | JFloat pyfloat
  | JStr string
  | JArr "json list"
  | JObj "(string \<times> json) list"

text \<open>The name \<open>type(obj)\<close> prints for the objects the encoder hands to its hook.\<close>

fun type_repr :: "pyval \<Rightarrow> string" where
  "type_repr (PDatetime _) = ''<class 'datetime.datetime'>''"
| "type_repr (PModel _) = ''<enum 'LLM_Model'>''"
| "type_repr _ = ''<class 'object'>''"

text \<open>
  The hook \<open>default=\<close> of the encoder. Without one the encoder raises \<open>TypeError\<close>;
  \<open>json_serializer\<close> of \<open>save_state\<close> returns the ISO string of a \<open>datetime\<close> and raises
  \<open>TypeError\<close> for every other object. The string a hook returns is given encoded.
\<close>

definition no_default :: "pyval \<Rightarrow> py_error + json" where
  "no_default obj = Inl (TypeError (''Object of type '' @ type_repr obj @ '' is not JSON serializable''))"

definition json_serializer :: "pyval \<Rightarrow> py_error + json" where
  "json_serializer obj =
     (case obj of
        PDatetime d \<Rightarrow> Inr (JStr (isoformat d))
      | _ \<Rightarrow> Inl (TypeError (''Object of type '' @ type_repr obj @ '' is not JSON serializable'')))"

text \<open>
  The encoder of \<open>json.dump\<close> / \<open>json.dumps\<close>: the JSON-native values are encoded
  structurally, in order, every other object goes to the hook, and the first exception
  ends the encoding.
\<close>

fun to_json :: "(pyval \<Rightarrow> py_error + json) \<Rightarrow> pyval \<Rightarrow> py_error + json"
  and to_json_list :: "(pyval \<Rightarrow> py_error + json) \<Rightarrow> pyval list \<Rightarrow> py_error + json list"
  and to_json_items :: "(pyval \<Rightarrow> py_error + json) \<Rightarrow> (string \<times> pyval) list \<Rightarrow> py_error + (string \<times> json) list"
where
  "to_json hook PNone = Inr JNull"
| "to_json hook (PBool b) = Inr (JBool b)"
| "to_json hook (PInt i) = Inr (JInt i)"
| "to_json hook (PFloat f) = Inr (JFloat f)"
| "to_json hook (PStr s) = Inr (JStr s)"
| "to_json hook (PList vs) =
     (case to_json_list hook vs of Inl e \<Rightarrow> Inl e | Inr js \<Rightarrow> Inr (JArr js))"
| "to_json hook (PDict kvs) =
     (case to_json_items hook kvs of Inl e \<Rightarrow> Inl e | Inr js \<Rightarrow> Inr (JObj js))"
| "to_json hook (PDatetime d) = hook (PDatetime d)"
| "to_json hook (PModel m) = hook (PModel m)"
| "to_json_list hook [] = Inr []"
| "to_json_list hook (v # vs) =
     (case to_json hook v of
        Inl e \<Rightarrow> Inl e
      | Inr j \<Rightarrow> (case to_json_list hook vs of Inl e \<Rightarrow> Inl e | Inr js \<Rightarrow> Inr (j # js)))"
| "to_json_items hook [] = Inr []"
| "to_json_items hook ((k, v) # kvs) =
     (case to_json hook v of
        Inl e \<Rightarrow> Inl e
      | Inr j \<Rightarrow> (case to_json_items hook kvs of Inl e \<Rightarrow> Inl e | Inr js \<Rightarrow> Inr ((k, j) # js)))"

text \<open>\<open>json.load\<close>: the Python value of a JSON document.\<close>

fun of_json :: "json \<Rightarrow> pyval" where
  "of_json JNull = PNone"
| "of_json (JBool b) = PBool b"
| "of_json (JInt i) = PInt i"
| "of_json (JFloat f) = PFloat f"
| "of_json (JStr s) = PStr s"
| "of_json (JArr js) = PList (map of_json js)"
| "of_json (JObj kjs) = PDict (map (\<lambda>(k, j). (k, of_json j)) kjs)"

section \<open>Text generation (agents/llms.py)\<close>

text \<open>
  What lies outside the program: the chat-completion call of the client (given the model
  token, the role-tagged messages, the temperature and the token limit it raises or returns
  the message content of each choice, a content being possibly \<open>None\<close>), the text
  \<open>json.dumps(v, indent=2)\<close> of an encodable value, the text \<open>str(v)\<close> of a Python value, and
  the successive readings of the clock during one call.
\<close>

type_synonym message = "string \<times> string"

record env =
  chat_completions_create ::
    "string \<Rightarrow> message list \<Rightarrow> pyfloat \<Rightarrow> int \<Rightarrow> py_error + string option list"
  json_text :: "json \<Rightarrow> string"
  py_str :: "pyval \<Rightarrow> string"
  clock :: "nat \<Rightarrow> datetime"

text \<open>
  \<open>Text_Generator\<close> holds the model it calls. \<open>NPCAgent\<close> builds it with the default client
  (\<open>ollama_client\<close>), for which \<open>__init__\<close> replaces \<open>GPT_OSS_OPEN\<close> by \<open>GPT_OSS_OLLAMA\<close>.
\<close>

record Text_Generator =
  tg_model :: LLM_Model

definition Text_Generator_init :: "LLM_Model \<Rightarrow> Text_Generator" where
  "Text_Generator_init mdl = \<lparr>tg_model = (if mdl = GPT_OSS_OPEN then GPT_OSS_OLLAMA else mdl)\<rparr>"

text \<open>\<open>response.choices[0].message.content\<close>; \<open>choices[0]\<close> raises on an empty list.\<close>

definition first_content :: "string option list \<Rightarrow> py_error + string option" where
  "first_content choices =
     (case choices of [] \<Rightarrow> Inl (IndexError ''list index out of range'') | c # _ \<Rightarrow> Inr c)"

definition generate_text ::
  "env \<Rightarrow> Text_Generator \<Rightarrow> message list \<Rightarrow> pyfloat \<Rightarrow> int \<Rightarrow> py_error + string option" where
  "generate_text ev tg messages temp max_tok =
     try_except
       (case chat_completions_create ev (model_value (tg_model tg)) messages temp max_tok of
          Inl e \<Rightarrow> Inl e
        | Inr choices \<Rightarrow> first_content choices)
       (\<lambda>e. Inr (Some ''''))"

section \<open>NPC agent (agents/npc_agent.py)\<close>

record NPCPersonality =
  name :: string
  backstory :: string
  personality_traits :: "string list"
  goals :: "string list"
  relationships :: "(string \<times> string) list"
  speech_patterns :: "string option"
  emotional_state :: string

text \<open>
  \<open>ActionResponse\<close> and \<open>DialogueExchange\<close> of models.py; the fields \<open>npc_name\<close> and
  \<open>timestamp\<close> carry a prefix here because records may not share field names.
\<close>

record ActionResponse =
  action_type :: ActionType
  content :: string
  ar_npc_name :: string
  metadata :: "pydict option"
  ar_timestamp :: datetime

record DialogueExchange =
  de_player_input :: "string option"
  de_npc_response :: string
  de_npc_name :: string
  de_emotional_state :: "string option"
  de_timestamp :: datetime

record NPCAgent =
  personality :: NPCPersonality
  model :: LLM_Model
  memory :: NPCMemory
  llm :: Text_Generator

definition NPCAgent_init :: "NPCPersonality \<Rightarrow> LLM_Model \<Rightarrow> NPCAgent" where
  "NPCAgent_init p mdl =
     \<lparr>personality = p, model = mdl,
      memory = \<lparr>npc_name = name p, memories = [], important_events = [], player_interactions = 0\<rparr>,
      llm = Text_Generator_init mdl\<rparr>"

definition NL :: string where
  "NL = [CHR 0x0A]"

definition IND :: string where
  "IND = ''        ''"

definition DQ :: char where
  "DQ = CHR 0x22"

definition SQ :: char where
  "SQ = CHR 0x27"

text \<open>\<open>sep.join(xs)\<close>.\<close>

fun join :: "string \<Rightarrow> string list \<Rightarrow> string" where
  "join sep [] = []"
| "join sep [x] = x"
| "join sep (x # y # ys) = x @ sep @ join sep (y # ys)"

text \<open>\<open>json.dumps(v, indent=2)\<close>, called without a hook.\<close>

definition json_dumps :: "env \<Rightarrow> pyval \<Rightarrow> py_error + string" where
  "json_dumps ev v = (case to_json no_default v of Inl e \<Rightarrow> Inl e | Inr j \<Rightarrow> Inr (json_text ev j))"

text \<open>\<open>mem.get('description', mem)\<close> formatted into the prompt; only a dict has \<open>get\<close>.\<close>

definition memory_description :: "env \<Rightarrow> pyval \<Rightarrow> py_error + string" where
  "memory_description ev mem =
     (case mem of
        PDict d \<Rightarrow> (case dict_get d ''description'' of
                       Some v \<Rightarrow> Inr (py_str ev v)
                     | None \<Rightarrow> Inr (py_str ev (PDict d)))
      | _ \<Rightarrow> Inl (AttributeError ''object has no attribute 'get' ''))"

fun memory_lines :: "env \<Rightarrow> pyval list \<Rightarrow> py_error + string" where
  "memory_lines ev [] = Inr []"
| "memory_lines ev (mem # mems) =
     (case memory_description ev mem of
        Inl e \<Rightarrow> Inl e
      | Inr s \<Rightarrow> (case memory_lines ev mems of
                    Inl e \<Rightarrow> Inl e
                  | Inr rest \<Rightarrow> Inr (''- '' @ s @ NL @ rest)))"

definition build_context_prompt :: "env \<Rightarrow> NPCAgent \<Rightarrow> string \<Rightarrow> StoryState \<Rightarrow> py_error + string" where
  "build_context_prompt ev agent player_input ss =
     (let p = personality agent in
      case json_dumps ev (PDict (world_state ss)) of
        Inl e \<Rightarrow> Inl e
      | Inr ws_text \<Rightarrow>
         (case (if memories (memory agent) \<noteq> []
                then memory_lines ev (last_n 5 (memories (memory agent)))
                else Inr (''- No specific memories yet.'' @ NL)) of
            Inl e \<Rightarrow> Inl e
          | Inr mem_text \<Rightarrow>
             Inr (''You are '' @ name p @ '', a character in an interactive story.'' @ NL @ NL @
                  IND @ ''## Your Background:'' @ NL @
                  IND @ backstory p @ NL @ NL @
                  IND @ ''## Your Personality Traits:'' @ NL @
                  IND @ join '', '' (personality_traits p) @ NL @ NL @
                  IND @ ''## Your Current Emotional State:'' @ NL @
                  IND @ emotional_state p @ NL @ NL @
                  IND @ ''## Your Goals:'' @ NL @
                  IND @ join NL (map (\<lambda>g. ''- '' @ g) (goals p)) @ NL @ NL @
                  IND @ ''## Story Context:'' @ NL @
                  IND @ ''### Plot Points:'' @ NL @
                  IND @ join NL (map (\<lambda>g. ''- '' @ g) (plot_points ss)) @ NL @ NL @
                  IND @ ''### Active Goals:'' @ NL @
                  IND @ join NL (map (\<lambda>g. ''- '' @ g) (active_goals ss)) @ NL @ NL @
                  IND @ ''### World State:'' @ NL @
                  IND @ ws_text @ NL @ NL @
                  IND @ ''## Your Recent Memories:'' @ NL @
                  IND @ mem_text @
                  (case speech_patterns p of
                     None \<Rightarrow> []
                   | Some sp \<Rightarrow> if sp = [] then []
                               else NL @ ''## Your Speech Patterns:'' @ NL @ sp @ NL) @
                  NL @
                  IND @ ''## The Player Says:'' @ NL @
                  IND @ [DQ] @ player_input @ [DQ] @ NL @ NL @
                  IND @ ''## Your Task:'' @ NL @
                  IND @ ''Respond naturally as '' @ name p @
                    ''. Consider your personality, goals, emotional state, and the story context.'' @ NL @
                  IND @ ''Your response should be authentic, consistent with your character, and advance the story naturally.'' @ NL @ NL @
                  IND @ ''Respond with ONLY your dialogue, keeping it concise (2-3 sentences max).'')))"

definition startswith :: "char \<Rightarrow> string \<Rightarrow> bool" where
  "startswith c s = (case s of [] \<Rightarrow> False | x # _ \<Rightarrow> x = c)"

definition endswith :: "char \<Rightarrow> string \<Rightarrow> bool" where
  "endswith c s = (case rev s of [] \<Rightarrow> False | x # _ \<Rightarrow> x = c)"

text \<open>The removal of surrounding quotes: \<open>dialogue_text[1:-1]\<close>.\<close>

definition strip_quotes :: "string \<Rightarrow> string" where
  "strip_quotes s =
     (if (startswith DQ s \<and> endswith DQ s) \<or> (startswith SQ s \<and> endswith SQ s)
      then butlast (tl s) else s)"

text \<open>\<open>response if response else "..."\<close>: \<open>None\<close> and the empty string are falsy.\<close>

definition response_or_dots :: "string option \<Rightarrow> string" where
  "response_or_dots response =
     (case response of None \<Rightarrow> ''...'' | Some r \<Rightarrow> if r = [] then ''...'' else r)"

definition dialogue_system_message :: string where
  "dialogue_system_message =
     ''You are an expert at role-playing and creating immersive dialogue for interactive stories.''"

definition dialogue_fallback :: string where
  "dialogue_fallback = ''...I need a moment to collect my thoughts.''"

text \<open>
  \<open>generate_dialogue\<close>. The prompt is built before the \<open>try\<close>, so what it raises reaches
  the caller. \<open>t\<close> is the clock reading that stamps the response. The result is the response
  together with the agent, whose memory the call extends.
\<close>

definition generate_dialogue ::
  "env \<Rightarrow> datetime \<Rightarrow> NPCAgent \<Rightarrow> string \<Rightarrow> StoryState \<Rightarrow> pyfloat \<Rightarrow> int
     \<Rightarrow> py_error + (ActionResponse \<times> NPCAgent)" where
  "generate_dialogue ev t agent player_input ss temp max_tok =
     (case build_context_prompt ev agent player_input ss of
        Inl e \<Rightarrow> Inl e
      | Inr context_prompt \<Rightarrow>
         (case generate_text ev (llm agent)
                 [(''system'', dialogue_system_message), (''user'', context_prompt)] temp max_tok of
            Inr response \<Rightarrow>
              (let dialogue_text = strip_quotes (response_or_dots response);
                   mem = memory agent;
                   mem' = mem\<lparr>memories := memories mem @
                              [PDict [(''type'', PStr ''dialogue''),
                                      (''player_input'', PStr player_input),
                                      (''npc_response'', PStr dialogue_text),
                                      (''timestamp'', PStr (isoformat (timestamp ss)))]],
                            player_interactions := player_interactions mem + 1\<rparr>
               in Inr (\<lparr>action_type = DIALOGUE, content = dialogue_text,
                         ar_npc_name = name (personality agent),
                         metadata = Some [(''emotional_state'', PStr (emotional_state (personality agent))),
                                          (''model'', PModel (model agent))],
                         ar_timestamp = t\<rparr>,
                       agent\<lparr>memory := mem'\<rparr>))
          | Inl e \<Rightarrow>
              Inr (\<lparr>action_type = DIALOGUE, content = dialogue_fallback,
                    ar_npc_name = name (personality agent),
                    metadata = Some [(''error'', PStr (error_text e))],
                    ar_timestamp = t\<rparr>,
                   agent)))"

text \<open>\<open>str.strip()\<close>: the whitespace characters removed at both ends.\<close>

definition is_py_space :: "char \<Rightarrow> bool" where
  "is_py_space c = (c \<in> set [CHR 0x20, CHR 0x09, CHR 0x0A, CHR 0x0B, CHR 0x0C, CHR 0x0D,
                               CHR 0x1C, CHR 0x1D, CHR 0x1E, CHR 0x1F])"

definition strip :: "string \<Rightarrow> string" where
  "strip s = rev (dropWhile is_py_space (rev (dropWhile is_py_space s)))"

definition action_system_message :: string where
  "action_system_message =
     ''You are an expert at role-playing and creating immersive actions for interactive stories.''"

definition build_action_prompt :: "env \<Rightarrow> NPCAgent \<Rightarrow> string \<Rightarrow> StoryState \<Rightarrow> py_error + string" where
  "build_action_prompt ev agent context ss =
     (let p = personality agent in
      case json_dumps ev (PDict (world_state ss)) of
        Inl e \<Rightarrow> Inl e
      | Inr ws_text \<Rightarrow>
          Inr (''You are '' @ name p @ '', a character in an interactive story.'' @ NL @ NL @
               IND @ ''## Your Background:'' @ NL @
               IND @ backstory p @ NL @ NL @
               IND @ ''## Your Personality Traits:'' @ NL @
               IND @ join '', '' (personality_traits p) @ NL @ NL @
               IND @ ''## Your Current Emotional State:'' @ NL @
               IND @ emotional_state p @ NL @ NL @
               IND @ ''## Current Context:'' @ NL @
               IND @ context @ NL @ NL @
               IND @ ''## Story State:'' @ NL @
               IND @ ws_text @ NL @ NL @
               IND @ ''## Your Task:'' @ NL @
               IND @ ''Describe what '' @ name p @
                 '' does in this situation. Be creative and true to your character.'' @ NL @
               IND @ ''Keep it brief (1-2 sentences).''))"

text \<open>\<open>response.strip()\<close>: \<open>None\<close> has no \<open>strip\<close>.\<close>

definition strip_response :: "string option \<Rightarrow> py_error + string" where
  "strip_response response =
     (case response of
        None \<Rightarrow> Inl (AttributeError '''NoneType' object has no attribute 'strip' '')
      | Some r \<Rightarrow> Inr (strip r))"

text \<open>
  \<open>generate_action\<close>: the prompt is built before the \<open>try\<close>; inside it the text is
  generated with a limit of 300 tokens, stripped and remembered.
\<close>

definition generate_action ::
  "env \<Rightarrow> datetime \<Rightarrow> NPCAgent \<Rightarrow> string \<Rightarrow> StoryState \<Rightarrow> ActionType \<Rightarrow> pyfloat
     \<Rightarrow> py_error + (ActionResponse \<times> NPCAgent)" where
  "generate_action ev t agent context ss kind temp =
     (case build_action_prompt ev agent context ss of
        Inl e \<Rightarrow> Inl e
      | Inr prompt \<Rightarrow>
         (case (case generate_text ev (llm agent)
                        [(''system'', action_system_message), (''user'', prompt)] temp 300 of
                  Inl e \<Rightarrow> Inl e
                | Inr response \<Rightarrow> strip_response response) of
            Inr action_text \<Rightarrow>
              (let mem = memory agent;
                   mem' = mem\<lparr>memories := memories mem @
                              [PDict [(''type'', PStr (action_value kind)),
                                      (''context'', PStr context),
                                      (''action'', PStr action_text),
                                      (''timestamp'', PStr (isoformat (timestamp ss)))]]\<rparr>
               in Inr (\<lparr>action_type = kind, content = action_text,
                         ar_npc_name = name (personality agent),
                         metadata = Some [(''model'', PModel (model agent))],
                         ar_timestamp = t\<rparr>,
                       agent\<lparr>memory := mem'\<rparr>))
          | Inl e \<Rightarrow>
              Inr (\<lparr>action_type = kind,
                    content = name (personality agent) @ '' stands quietly.'',
                    ar_npc_name = name (personality agent),
                    metadata = Some [(''error'', PStr (error_text e))],
                    ar_timestamp = t\<rparr>,
                   agent)))"

section \<open>Game orchestrator (orchestrator/game_orchestrator.py)\<close>

text \<open>
  The orchestrator and its story manager are built with the same settings object. In the
  program the story manager holds, after \<open>add_npc\<close> and after every
  \<open>register_npc_memory\<close>, the very memory object of the agent; here the agent and the
  story manager each hold a value, and the story manager's one is set at those two calls.
  Nothing proved below reads the story manager's copy after \<open>generate_action\<close>, the one
  call that extends the memory without registering it again.
\<close>

record GameOrchestrator =
  orch_settings :: GameSettings
  story_manager :: StoryManager
  npcs :: "(string \<times> NPCAgent) list"

definition GameOrchestrator_init :: "GameSettings \<Rightarrow> datetime \<Rightarrow> GameOrchestrator" where
  "GameOrchestrator_init st t = \<lparr>orch_settings = st, story_manager = StoryManager_init st t, npcs = []\<rparr>"

text \<open>
  \<open>add_npc\<close>: \<open>model or self.settings.llm_model\<close>; \<open>NPCAgent.__init__\<close> reads
  \<open>model.value\<close>, which only a member of \<open>LLM_Model\<close> has.
\<close>

definition add_npc :: "NPCPersonality \<Rightarrow> LLM_Model option \<Rightarrow> GameOrchestrator \<Rightarrow> py_error + GameOrchestrator" where
  "add_npc p mdl g =
     (case (case mdl of
              Some m \<Rightarrow> Inr m
            | None \<Rightarrow> (case llm_model (orch_settings g) of
                         ModelMember m \<Rightarrow> Inr m
                       | ModelToken s \<Rightarrow> Inl (AttributeError '''str' object has no attribute 'value' '')
                       | NoModel \<Rightarrow> Inl (AttributeError '''NoneType' object has no attribute 'value' ''))) of
        Inl e \<Rightarrow> Inl e
      | Inr m \<Rightarrow>
          (let agent = NPCAgent_init p m
           in Inr (g\<lparr>npcs := dict_set (npcs g) (name p) agent,
                     story_manager := register_npc_memory (name p) (memory agent) (story_manager g)\<rparr>)))"

definition remove_npc :: "string \<Rightarrow> GameOrchestrator \<Rightarrow> GameOrchestrator" where
  "remove_npc nm g = g\<lparr>npcs := filter (\<lambda>(k, a). k \<noteq> nm) (npcs g)\<rparr>"

definition get_npc :: "string \<Rightarrow> GameOrchestrator \<Rightarrow> NPCAgent option" where
  "get_npc nm g = dict_get (npcs g) nm"

definition list_npcs :: "GameOrchestrator \<Rightarrow> string list" where
  "list_npcs g = map fst (npcs g)"

text \<open>
  \<open>process_player_input\<close>. The result pairs what the call returns or raises with the
  orchestrator it leaves behind.
\<close>

definition process_player_input ::
  "env \<Rightarrow> string \<Rightarrow> string \<Rightarrow> GameOrchestrator \<Rightarrow> (py_error + DialogueExchange) \<times> GameOrchestrator" where
  "process_player_input ev player_input nm g =
     (case get_npc nm g of
        None \<Rightarrow>
          (Inr \<lparr>de_player_input = Some player_input,
                de_npc_response = ''I don't know who '' @ nm @ '' is...'',
                de_npc_name = ''System'',
                de_emotional_state = None,
                de_timestamp = clock ev 0\<rparr>, g)
      | Some npc \<Rightarrow>
          (let sm = story_manager g;
               ss = (story_state sm)\<lparr>timestamp := clock ev 0\<rparr>;
               sm1 = sm\<lparr>story_state := ss\<rparr>
           in case generate_dialogue ev (clock ev 1) npc player_input ss
                     (temperature (orch_settings g)) 100 of
                Inl e \<Rightarrow> (Inl e, g\<lparr>story_manager := sm1\<rparr>)
              | Inr (action_response, npc') \<Rightarrow>
                  (let sm2 = record_conversation (clock ev 2) player_input nm
                               (content action_response) (metadata action_response) sm1;
                       sm3 = register_npc_memory nm (memory npc') sm2
                   in (Inr \<lparr>de_player_input = Some player_input,
                             de_npc_response = content action_response,
                             de_npc_name = nm,
                             de_emotional_state = Some (emotional_state (personality npc')),
                             de_timestamp = clock ev 3\<rparr>,
                       g\<lparr>story_manager := sm3, npcs := dict_set (npcs g) nm npc'\<rparr>))))"

text \<open>\<open>str.upper()\<close> on the letters \<open>a\<close> to \<open>z\<close>; every other character is kept.\<close>

definition upper_char :: "char \<Rightarrow> char" where
  "upper_char c = (let n = (of_char c :: nat) in if 97 \<le> n \<and> n \<le> 122 then char_of (n - 32) else c)"

definition upper :: "string \<Rightarrow> string" where
  "upper s = map upper_char s"

text \<open>\<open>ActionType[key]\<close>: the member of that name, \<open>KeyError\<close> (here \<open>None\<close>) otherwise.\<close>

definition ActionType_by_name :: "string \<Rightarrow> ActionType option" where
  "ActionType_by_name key = find (\<lambda>a. action_name a = key) ActionType_members"

text \<open>
  The validation of the field \<open>action_type: ActionType\<close> when \<open>ActionResponse\<close> is built
  from a string: the member whose value is that string, a validation error otherwise.
\<close>

definition validate_action_type :: "string \<Rightarrow> py_error + ActionType" where
  "validate_action_type s =
     (case find (\<lambda>a. action_value a = s) ActionType_members of
        Some a \<Rightarrow> Inr a
      | None \<Rightarrow> Inl (ValidationError
          ''Input should be 'dialogue', 'movement', 'emotion', 'interaction' or 'story_event' ''))"

definition trigger_npc_action ::
  "env \<Rightarrow> string \<Rightarrow> string \<Rightarrow> string \<Rightarrow> GameOrchestrator \<Rightarrow> (py_error + ActionResponse) \<times> GameOrchestrator" where
  "trigger_npc_action ev nm context kind_text g =
     (case get_npc nm g of
        None \<Rightarrow>
          ((case validate_action_type kind_text of
              Inl e \<Rightarrow> Inl e
            | Inr a \<Rightarrow> Inr \<lparr>action_type = a, content = nm @ '' is not present.'',
                            ar_npc_name = ''System'', metadata = None,
                            ar_timestamp = clock ev 0\<rparr>), g)
      | Some npc \<Rightarrow>
          (let sm = story_manager g;
               ss = (story_state sm)\<lparr>timestamp := clock ev 0\<rparr>;
               g1 = g\<lparr>story_manager := sm\<lparr>story_state := ss\<rparr>\<rparr>;
               action_type_enum = (case ActionType_by_name (upper kind_text) of
                                     Some a \<Rightarrow> a | None \<Rightarrow> INTERACTION)
           in case generate_action ev (clock ev 1) npc context ss action_type_enum
                     (temperature (orch_settings g)) of
                Inl e \<Rightarrow> (Inl e, g1)
              | Inr (action_response, npc') \<Rightarrow>
                  (Inr action_response, g1\<lparr>npcs := dict_set (npcs g1) nm npc'\<rparr>)))"

section \<open>Persistence (save_state and load_state of story/story_manager.py)\<close>

text \<open>\<open>model_dump()\<close> of the three models: a dict of the fields, values as stored.\<close>

definition dump_llm_setting :: "llm_setting \<Rightarrow> pyval" where
  "dump_llm_setting x = (case x of NoModel \<Rightarrow> PNone | ModelToken s \<Rightarrow> PStr s | ModelMember m \<Rightarrow> PModel m)"

definition dump_settings :: "GameSettings \<Rightarrow> pydict" where
  "dump_settings st =
     [(''llm_model'', dump_llm_setting (llm_model st)),
      (''temperature'', PFloat (temperature st)),
      (''max_tokens'', PInt (max_tokens st)),
      (''story_style'', PStr (story_style st)),
      (''difficulty'', PStr (difficulty st)),
      (''custom_instructions'', (case custom_instructions st of None \<Rightarrow> PNone | Some s \<Rightarrow> PStr s))]"

definition dump_story_state :: "StoryState \<Rightarrow> pydict" where
  "dump_story_state ss =
     [(''plot_points'', PList (map PStr (plot_points ss))),
      (''completed_events'', PList (map PStr (completed_events ss))),
      (''active_goals'', PList (map PStr (active_goals ss))),
      (''world_state'', PDict (world_state ss)),
      (''timestamp'', PDatetime (timestamp ss))]"

definition dump_memory :: "NPCMemory \<Rightarrow> pydict" where
  "dump_memory mem =
     [(''npc_name'', PStr (npc_name mem)),
      (''memories'', PList (memories mem)),
      (''important_events'', PList (map PStr (important_events mem))),
      (''player_interactions'', PInt (player_interactions mem))]"

text \<open>
  The conversion of \<open>settings_dict["llm_model"]\<close> in \<open>save_state\<close>: a member of the
  enumeration is replaced by its value, \<open>None\<close> and a string stay.
\<close>

definition enum_to_value :: "pydict \<Rightarrow> pydict" where
  "enum_to_value settings_dict =
     (case dict_get settings_dict ''llm_model'' of
        Some (PModel m) \<Rightarrow> dict_set settings_dict ''llm_model'' (PStr (model_value m))
      | _ \<Rightarrow> settings_dict)"

definition save_data :: "StoryManager \<Rightarrow> pyval" where
  "save_data m =
     PDict [(''story_state'', PDict (dump_story_state (story_state m))),
            (''npc_memories'', PDict (map (\<lambda>(k, v). (k, PDict (dump_memory v))) (npc_memories m))),
            (''conversation_history'', PList (conversation_history m)),
            (''settings'', PDict (enum_to_value (dump_settings (settings m))))]"

text \<open>
  \<open>save_state\<close>: the document \<open>json.dump(data, f, indent=2, default=json_serializer)\<close>
  writes, or the exception it raises.
\<close>

definition save_state :: "StoryManager \<Rightarrow> py_error + json" where
  "save_state m = to_json json_serializer (save_data m)"

text \<open>
  \<open>from ..agents.llms import LLM_Model\<close>, the statement \<open>load_state\<close> runs when the stored
  \<open>llm_model\<close> is a string. It is a relative import two packages above the module. The
  program imports the module as \<open>story.story_manager\<close> (game_orchestrator.py:
  \<open>from story.story_manager import StoryManager\<close>), with \<open>story\<close> a top-level package, and
  there the import raises. \<open>top_level\<close> tells whether \<open>story\<close> is a top-level package.
\<close>

definition import_LLM_Model :: "bool \<Rightarrow> py_error + LLM_Model list" where
  "import_LLM_Model top_level =
     (if top_level then Inl (ImportError ''attempted relative import beyond top-level package'')
      else Inr LLM_Model_members)"

text \<open>
  The loop of \<open>load_state\<close> over the members of \<open>LLM_Model\<close>, in declaration order,
  leaving at the first member whose value is the token.
\<close>

fun find_model :: "LLM_Model list \<Rightarrow> string \<Rightarrow> LLM_Model option" where
  "find_model [] token = None"
| "find_model (mdl # mdls) token = (if model_value mdl = token then Some mdl else find_model mdls token)"

text \<open>The import and the loop, run when \<open>settings_data["llm_model"]\<close> is a string.\<close>

definition restore_llm_model :: "bool \<Rightarrow> pydict \<Rightarrow> py_error + pydict" where
  "restore_llm_model top_level settings_data =
     (case dict_get settings_data ''llm_model'' of
        Some (PStr token) \<Rightarrow>
          (case import_LLM_Model top_level of
             Inl e \<Rightarrow> Inl e
           | Inr members \<Rightarrow>
               (case find_model members token of
                  Some mdl \<Rightarrow> Inr (dict_set settings_data ''llm_model'' (PModel mdl))
                | None \<Rightarrow> Inr settings_data))
      | _ \<Rightarrow> Inr settings_data)"

text \<open>
  The constructors \<open>StoryState(**d)\<close>, \<open>NPCMemory(**d)\<close> and \<open>GameSettings(**d)\<close> validate
  their argument with the model library, which is not part of the program: they are
  parameters, each returning the model or the exception raised. \<open>StoryState(**d)\<close> creates
  its lists anew, so its result is given by the entries of each.
\<close>

record story_values =
  sv_plot_points :: "string list"
  sv_completed_events :: "string list"
  sv_active_goals :: "string list"
  sv_world_state :: pydict
  sv_timestamp :: datetime

record constructors =
  StoryState_of :: "pyval \<Rightarrow> py_error + story_values"
  NPCMemory_of :: "pyval \<Rightarrow> py_error + NPCMemory"
  GameSettings_of :: "pyval \<Rightarrow> py_error + GameSettings"

text \<open>The new story state: three new list objects beside the list objects there are.\<close>

definition new_story_state :: "story_values \<Rightarrow> StoryState \<Rightarrow> StoryState" where
  "new_story_state sv old =
     (let n = next_own old in
      \<lparr>plot_points_ref = Own n, completed_events_ref = Own (n + 1), active_goals_ref = Own (n + 2),
       lists = (lists old)(Own n \<mapsto> sv_plot_points sv, Own (n + 1) \<mapsto> sv_completed_events sv,
                           Own (n + 2) \<mapsto> sv_active_goals sv),
       next_own = n + 3,
       world_state = sv_world_state sv, timestamp = sv_timestamp sv\<rparr>)"

text \<open>The dict comprehension over \<open>data.get("npc_memories", {}).items()\<close>.\<close>

fun load_memories :: "constructors \<Rightarrow> (string \<times> pyval) list \<Rightarrow> py_error + (string \<times> NPCMemory) list" where
  "load_memories cs [] = Inr []"
| "load_memories cs ((k, v) # kvs) =
     (case NPCMemory_of cs v of
        Inl e \<Rightarrow> Inl e
      | Inr mem \<Rightarrow> (case load_memories cs kvs of Inl e \<Rightarrow> Inl e | Inr rest \<Rightarrow> Inr ((k, mem) # rest)))"

text \<open>
  The argument handed to \<open>GameSettings\<close>: \<open>data["settings"].copy()\<close> with the model token
  restored. Only a dict and a list have \<open>copy\<close>, and a list cannot be indexed or unpacked by
  a key.
\<close>

definition settings_argument :: "bool \<Rightarrow> pyval \<Rightarrow> py_error + pyval" where
  "settings_argument top_level v =
     (case v of
        PDict d \<Rightarrow> (case restore_llm_model top_level d of Inl e \<Rightarrow> Inl e | Inr d' \<Rightarrow> Inr (PDict d'))
      | PList xs \<Rightarrow> Inl (TypeError ''list is not a mapping'')
      | _ \<Rightarrow> Inl (AttributeError ''object has no attribute 'copy' ''))"

text \<open>The elements of a list value; a saved document has an array in this place.\<close>

definition list_items :: "pyval \<Rightarrow> pyval list" where
  "list_items v = (case v of PList xs \<Rightarrow> xs | _ \<Rightarrow> [])"

text \<open>
  \<open>load_state\<close>, given the document in the file (\<open>None\<close> when the file does not exist).
  The result pairs the exception raised, if any, with the story manager left behind: the
  assignments made before an exception stay.
\<close>

definition load_state ::
  "constructors \<Rightarrow> bool \<Rightarrow> json option \<Rightarrow> StoryManager \<Rightarrow> py_error option \<times> StoryManager" where
  "load_state cs top_level file m =
     (case file of
        None \<Rightarrow> (None, m)
      | Some doc \<Rightarrow>
         (case of_json doc of
            PDict data \<Rightarrow>
              (case StoryState_of cs (case dict_get data ''story_state'' of None \<Rightarrow> PDict [] | Some v \<Rightarrow> v) of
                 Inl e \<Rightarrow> (Some e, m)
               | Inr sv \<Rightarrow>
                  (let m1 = m\<lparr>story_state := new_story_state sv (story_state m)\<rparr> in
                   case (case dict_get data ''npc_memories'' of
                           None \<Rightarrow> Inr []
                         | Some (PDict kvs) \<Rightarrow> load_memories cs kvs
                         | Some _ \<Rightarrow> Inl (AttributeError ''object has no attribute 'items' '')) of
                     Inl e \<Rightarrow> (Some e, m1)
                   | Inr mems \<Rightarrow>
                      (let m2 = m1\<lparr>npc_memories := mems,
                                    conversation_history :=
                                      (case dict_get data ''conversation_history'' of
                                         None \<Rightarrow> [] | Some v \<Rightarrow> list_items v)\<rparr> in
                       case dict_get data ''settings'' of
                         None \<Rightarrow> (None, m2)
                       | Some v \<Rightarrow>
                          (case settings_argument top_level v of
                             Inl e \<Rightarrow> (Some e, m2)
                           | Inr arg \<Rightarrow>
                              (case GameSettings_of cs arg of
                                 Inl e \<Rightarrow> (Some e, m2)
                               | Inr st \<Rightarrow> (None, m2\<lparr>settings := st\<rparr>))))))
          | _ \<Rightarrow> (Some (AttributeError ''object has no attribute 'get' ''), m)))"

section \<open>Call sequences and sample inputs\<close>

definition sample_time :: datetime where
  "sample_time = \<lparr>year = 2024, month = 5, day = 17, hour = 9, minute = 30, second = 0, microsecond = 0\<rparr>"

definition fresh_manager :: StoryManager where
  "fresh_manager = StoryManager_init GameSettings_default sample_time"

text \<open>A sequence of \<open>complete_event\<close> calls run in order.\<close>

definition complete_events :: "StoryManager \<Rightarrow> string list \<Rightarrow> StoryManager" where
  "complete_events m es = foldl (\<lambda>m e. complete_event e m) m es"

text \<open>
  A sequence in which the caller gives one list to \<open>set_active_goals\<close> and later the same
  list to \<open>set_plot_points\<close>, and then adds a plot point the list does not hold.
\<close>

definition sample_ops :: "store_op list" where
  "sample_ops = [SetActiveGoals (Caller 0 [''find key'', ''open gate'']), AddActiveGoal ''find key'',
                 AddActiveGoal ''meet guard'', CompleteGoal ''open gate'',
                 SetPlotPoints (Caller 0 [''find key'', ''open gate'']), AddPlotPoint ''reach the keep'']"

text \<open>The caller gives one list to both setters and adds a plot point the list holds.\<close>

definition shared_list_ops :: "store_op list" where
  "shared_list_ops = [SetPlotPoints (Caller 0 [''a'']), SetActiveGoals (Caller 0 [''a'']),
                      AddPlotPoint ''a'']"

definition doubled_goal_manager :: StoryManager where
  "doubled_goal_manager = set_active_goals (Caller 0 [''find key'', ''find key'']) fresh_manager"

definition single_goal_manager :: StoryManager where
  "single_goal_manager = set_active_goals (Caller 0 [''find key'', ''open gate'']) fresh_manager"

definition repeated_goal_manager :: StoryManager where
  "repeated_goal_manager = set_active_goals (Caller 0 [''a'', ''b'', ''a'']) fresh_manager"

text \<open>
  A file that holds only settings with a model token, and a stand-in for the model library
  that builds the default story state, all this file asks of it.
\<close>

definition token_document :: json where
  "token_document = JObj [(''settings'', JObj [(''llm_model'', JStr ''gpt-4o-mini'')])]"

definition default_story_values :: "pyval \<Rightarrow> py_error + story_values" where
  "default_story_values v =
     (case v of
        PDict [] \<Rightarrow> Inr \<lparr>sv_plot_points = [], sv_completed_events = [], sv_active_goals = [],
                          sv_world_state = [], sv_timestamp = sample_time\<rparr>
      | _ \<Rightarrow> Inl (ValidationError ''not a default story state''))"

definition no_memory :: "pyval \<Rightarrow> py_error + NPCMemory" where
  "no_memory v = Inl (ValidationError ''not a memory'')"

definition settings_as_stored :: "pyval \<Rightarrow> py_error + GameSettings" where
  "settings_as_stored v =
     (case v of
        PDict d \<Rightarrow> Inr (GameSettings_default
                        \<lparr>llm_model := (case dict_get d ''llm_model'' of
                                          Some (PStr token) \<Rightarrow> ModelToken token
                                        | Some (PModel mdl) \<Rightarrow> ModelToken (model_value mdl)
                                        | _ \<Rightarrow> NoModel)\<rparr>)
      | _ \<Rightarrow> Inl (TypeError ''not a mapping''))"

definition sample_constructors :: constructors where
  "sample_constructors =
     \<lparr>StoryState_of = default_story_values, NPCMemory_of = no_memory,
      GameSettings_of = settings_as_stored\<rparr>"

definition guard_personality :: NPCPersonality where
  "guard_personality =
     \<lparr>name = ''Guard'', backstory = ''A town guard'', personality_traits = [''alert'', ''serious''],
      goals = [], relationships = [], speech_patterns = None, emotional_state = ''neutral''\<rparr>"

definition guard_agent :: NPCAgent where
  "guard_agent = NPCAgent_init guard_personality GPT_OSS_OLLAMA"

definition fresh_game :: GameOrchestrator where
  "fresh_game = GameOrchestrator_init GameSettings_default sample_time"

definition guard_game :: GameOrchestrator where
  "guard_game =
     fresh_game\<lparr>npcs := [(''Guard'', guard_agent)],
                 story_manager := register_npc_memory ''Guard'' (memory guard_agent) (story_manager fresh_game)\<rparr>"

definition constant_clock :: "nat \<Rightarrow> datetime" where
  "constant_clock k = sample_time"

definition empty_json_text :: "json \<Rightarrow> string" where
  "empty_json_text j = ''{}''"

definition empty_py_str :: "pyval \<Rightarrow> string" where
  "empty_py_str v = ''{}''"

definition hail_client :: "string \<Rightarrow> message list \<Rightarrow> pyfloat \<Rightarrow> int \<Rightarrow> py_error + string option list" where
  "hail_client tok ms t k = Inr [Some ''Hail.'']"

definition failing_client :: "string \<Rightarrow> message list \<Rightarrow> pyfloat \<Rightarrow> int \<Rightarrow> py_error + string option list" where
  "failing_client tok ms t k = Inl (ClientError ''Connection error.'')"

definition hail_env :: env where
  "hail_env = \<lparr>chat_completions_create = hail_client, json_text = empty_json_text,
               py_str = empty_py_str, clock = constant_clock\<rparr>"

definition failing_env :: env where
  "failing_env = \<lparr>chat_completions_create = failing_client, json_text = empty_json_text,
                  py_str = empty_py_str, clock = constant_clock\<rparr>"

text \<open>An outcome of the chat-completion call that gives no text.\<close>

fun no_content :: "py_error + string option list \<Rightarrow> bool" where
  "no_content (Inl e) = True"
| "no_content (Inr []) = True"
| "no_content (Inr (None # cs)) = True"
| "no_content (Inr (Some s # cs)) = (s = [])"

definition error_entry :: "ActionResponse \<Rightarrow> pyval option" where
  "error_entry r = (case metadata r of None \<Rightarrow> None | Some d \<Rightarrow> dict_get d ''error'')"

definition guard_prompt :: string where
  "guard_prompt = projr (build_context_prompt failing_env guard_agent ''hello'' (story_state fresh_manager))"

section \<open>The conversation log is bounded\<close>


lemma last_n_append_last_n: "last_n n (last_n n xs @ ys) = last_n n (xs @ ys)"
proof (cases "length xs \<le> n")
  case True
  then show ?thesis by (simp add: last_n_def)
next
  case False
  then have "length xs + length ys - (length xs - n + n) + (length xs - n) = length xs + length ys - n"
    by arith
  then show ?thesis using False by (simp add: last_n_def)
qed

lemma record_conversation_history:
  "conversation_history (record_conversation now p nm r md m) =
     last_n 100 (conversation_history m @ [exchange_record now p nm r md])"
  by (simp add: record_conversation_def Let_def last_n_def)

lemma record_call_history:
  "conversation_history (record_call m c) = last_n 100 (conversation_history m @ [call_record c])"
  by (simp add: record_call_def call_record_def record_conversation_history)

lemma record_all_history:
  "conversation_history (record_all m cs) =
     (if cs = [] then conversation_history m
      else last_n 100 (conversation_history m @ map call_record cs))"
proof (induction cs rule: rev_induct)
  case Nil
  show ?case by (simp add: record_all_def)
next
  case (snoc c cs)
  have "conversation_history (record_all m (cs @ [c])) =
          last_n 100 (conversation_history (record_all m cs) @ [call_record c])"
    by (simp add: record_all_def record_call_history)
  also have "\<dots> = last_n 100 (conversation_history m @ map call_record (cs @ [c]))"
    using snoc.IH last_n_append_last_n [of 100 "conversation_history m @ map call_record cs" "[call_record c]"]
    by (cases "cs = []") simp_all
  finally show ?case by simp
qed


section \<open>Completed events\<close>

lemma deref_list_assign:
  "deref (lists (list_assign r xs ss)) r' = (if r' = r then xs else deref (lists ss) r')"
  by (simp add: deref_def list_assign_def)

lemma refs_list_assign:
  "plot_points_ref (list_assign r xs ss) = plot_points_ref ss"
  "completed_events_ref (list_assign r xs ss) = completed_events_ref ss"
  "active_goals_ref (list_assign r xs ss) = active_goals_ref ss"
  by (simp_all add: list_assign_def)

lemma complete_event_events:
  "completed_events (story_state (complete_event e m)) =
     (if e \<in> set (completed_events (story_state m)) then completed_events (story_state m)
      else completed_events (story_state m) @ [e])"
  by (simp add: complete_event_def completed_events_def deref_list_assign refs_list_assign)

lemma complete_events_distinct:
  "distinct (completed_events (story_state m)) \<Longrightarrow>
   distinct (completed_events (story_state (complete_events m es)))
   \<and> set (completed_events (story_state (complete_events m es))) =
       set (completed_events (story_state m)) \<union> set es"
proof (induction es rule: rev_induct)
  case Nil
  then show ?case by (simp add: complete_events_def)
next
  case (snoc e es)
  have "complete_events m (es @ [e]) = complete_event e (complete_events m es)"
    by (simp add: complete_events_def)
  then show ?case using snoc by (auto simp: complete_event_events)
qed

text \<open>
  Claim C7. From a story manager whose completed events have no duplicates (a fresh one
  has none), any sequence of \<open>complete_event\<close> calls leaves a list without duplicates that
  holds exactly the old events and the names passed; a further call with a name already
  present changes nothing, and with a new name it appends that name to the list of
  completed events and changes nothing else.
\<close>

theorem complete_event_no_duplicates:
  assumes "distinct (completed_events (story_state m))"
  shows "distinct (completed_events (story_state (complete_events m es)))
   \<and> set (completed_events (story_state (complete_events m es))) =
       set (completed_events (story_state m)) \<union> set es
   \<and> complete_events m (es @ [e]) =
       (if e \<in> set (completed_events (story_state m)) \<union> set es then complete_events m es
        else (complete_events m es)\<lparr>story_state :=
               list_assign (completed_events_ref (story_state (complete_events m es)))
                 (completed_events (story_state (complete_events m es)) @ [e])
                 (story_state (complete_events m es))\<rparr>)
   \<and> completed_events (story_state (complete_events m (es @ [e]))) =
       (if e \<in> set (completed_events (story_state m)) \<union> set es
        then completed_events (story_state (complete_events m es))
        else completed_events (story_state (complete_events m es)) @ [e])"
proof -
  have a: "complete_events m (es @ [e]) = complete_event e (complete_events m es)"
    by (simp add: complete_events_def)
  have b: "completed_events (story_state (complete_events m (es @ [e]))) =
       (if e \<in> set (completed_events (story_state m)) \<union> set es
        then completed_events (story_state (complete_events m es))
        else completed_events (story_state (complete_events m es)) @ [e])"
    using complete_events_distinct [OF assms, of es] a by (simp add: complete_event_events)
  have c: "complete_events m (es @ [e]) =
       (if e \<in> set (completed_events (story_state m)) \<union> set es then complete_events m es
        else (complete_events m es)\<lparr>story_state :=
               list_assign (completed_events_ref (story_state (complete_events m es)))
                 (completed_events (story_state (complete_events m es)) @ [e])
                 (story_state (complete_events m es))\<rparr>)"
    using complete_events_distinct [OF assms, of es] a by (simp add: complete_event_def)
  show ?thesis
    using complete_events_distinct [OF assms, of es] b c by simp
qed

lemma fresh_manager_lists:
  "completed_events (story_state fresh_manager) = []"
  "active_goals (story_state fresh_manager) = []"
  "plot_points (story_state fresh_manager) = []"
  by (simp_all add: fresh_manager_def StoryManager_init_def completed_events_def active_goals_def
        plot_points_def deref_def)

theorem complete_event_no_duplicates_witness:
  "distinct (completed_events (story_state fresh_manager))
   \<and> completed_events (story_state (complete_events fresh_manager [''gate'', ''key'', ''gate'', ''gate''])) = [''gate'', ''key'']
   \<and> distinct (completed_events (story_state (complete_events fresh_manager [''gate'', ''key'', ''gate'', ''gate''])))"
proof -
  have h: "distinct (completed_events (story_state fresh_manager))"
    by (simp add: fresh_manager_lists)
  have v: "completed_events (story_state (complete_events fresh_manager [''gate'', ''key'', ''gate'', ''gate''])) = [''gate'', ''key'']"
    by (simp add: complete_events_def complete_event_events fresh_manager_lists)
  show ?thesis
    using h v complete_event_no_duplicates [OF h, of "[''gate'', ''key'', ''gate'', ''gate'']" "''x''"] by simp
qed

section \<open>Active goals\<close>

lemma active_goals_list_assign:
  "active_goals (list_assign r xs ss) = (if active_goals_ref ss = r then xs else active_goals ss)"
  by (simp add: active_goals_def deref_list_assign refs_list_assign)

lemma shared_with_goals:
  "active_goals_ref ss = plot_points_ref ss \<Longrightarrow> plot_points ss = active_goals ss"
  "active_goals_ref ss = completed_events_ref ss \<Longrightarrow> completed_events ss = active_goals ss"
  by (simp_all add: plot_points_def completed_events_def active_goals_def)

lemma apply_store_op_goals:
  assumes "distinct (active_goals (story_state m))" and "keeps_goals_distinct m op"
  shows "distinct (active_goals (story_state (apply_store_op m op)))"
proof (cases op)
  case (SetPlotPoints r)
  then show ?thesis using assms by (simp add: set_plot_points_def active_goals_def)
next
  case (AddPlotPoint pp)
  then show ?thesis using assms
    by (auto simp: add_plot_point_def active_goals_list_assign shared_with_goals)
next
  case (CompleteEvent e)
  then show ?thesis using assms
    by (auto simp: complete_event_def active_goals_list_assign shared_with_goals)
next
  case (SetActiveGoals r)
  then show ?thesis using assms by (simp add: set_active_goals_def active_goals_def)
next
  case (AddActiveGoal g)
  then show ?thesis using assms by (simp add: add_active_goal_def active_goals_list_assign)
next
  case (CompleteGoal g)
  then show ?thesis using assms by (simp add: complete_goal_def active_goals_list_assign)
next
  case (UpdateWorldState k v)
  then show ?thesis using assms by (simp add: update_world_state_def active_goals_def)
next
  case (RecordConversation c)
  then show ?thesis using assms by (simp add: record_call_def record_conversation_def Let_def)
next
  case (RegisterNpcMemory nm mem)
  then show ?thesis using assms by (simp add: register_npc_memory_def)
qed

text \<open>
  Claim C6 as stated fails: \<open>set_active_goals\<close> stores the list it is given, repeated
  entries included.
\<close>

theorem active_goals_duplicates_counterexample:
  "\<not> distinct (active_goals (story_state (run_store_ops fresh_manager
         [SetActiveGoals (Caller 0 [''find key'', ''find key''])])))"
  by (simp add: run_store_ops_def set_active_goals_def active_goals_def deref_def
        fresh_manager_def StoryManager_init_def)

text \<open>
  The setters store the caller's list object, not a copy: when the caller gives one list,
  free of duplicates, to \<open>set_plot_points\<close> and to \<open>set_active_goals\<close>, an
  \<open>add_plot_point\<close> appends to the active goals too, a repeated entry included.
\<close>

lemma shared_list_duplicates:
  "active_goals (story_state (run_store_ops fresh_manager shared_list_ops)) = [''a'', ''a'']
   \<and> plot_points (story_state (run_store_ops fresh_manager shared_list_ops)) = [''a'', ''a'']"
  by (simp add: shared_list_ops_def run_store_ops_def set_active_goals_def set_plot_points_def
        add_plot_point_def active_goals_def plot_points_def deref_def list_assign_def
        fresh_manager_def StoryManager_init_def)

text \<open>
  Claim C6, amended. If the active goals have no duplicates, no \<open>set_active_goals\<close> call
  in the sequence is given a list that has a repeated entry, and no \<open>add_plot_point\<close> call
  appends an entry already present to a list object that is at that moment both the plot
  points and the active goals, then after the sequence of store operations the active goals
  have no duplicates.
\<close>

theorem active_goals_distinct_amended:
  assumes "distinct (active_goals (story_state m))" and "goals_guarded m ops"
  shows "distinct (active_goals (story_state (run_store_ops m ops)))"
  using assms
proof (induction ops arbitrary: m)
  case Nil
  then show ?case by (simp add: run_store_ops_def)
next
  case (Cons op ops)
  have "run_store_ops m (op # ops) = run_store_ops (apply_store_op m op) ops"
    by (simp add: run_store_ops_def)
  moreover have "distinct (active_goals (story_state (apply_store_op m op)))"
    using Cons.prems apply_store_op_goals [of m op] by simp
  ultimately show ?case using Cons.IH [of "apply_store_op m op"] Cons.prems by simp
qed

lemma sample_ops_run:
  "active_goals (story_state (run_store_ops fresh_manager sample_ops))
     = [''find key'', ''meet guard'', ''reach the keep'']"
  by (simp add: sample_ops_def run_store_ops_def set_active_goals_def add_active_goal_def
        complete_goal_def set_plot_points_def add_plot_point_def active_goals_def plot_points_def
        deref_def list_assign_def fresh_manager_def StoryManager_init_def)

lemma sample_ops_guarded: "goals_guarded fresh_manager sample_ops"
  by (simp add: sample_ops_def set_active_goals_def add_active_goal_def
        complete_goal_def set_plot_points_def add_plot_point_def active_goals_def plot_points_def
        deref_def list_assign_def fresh_manager_def StoryManager_init_def)

theorem active_goals_distinct_amended_witness:
  "distinct (active_goals (story_state fresh_manager)) \<and> goals_guarded fresh_manager sample_ops
   \<and> active_goals (story_state (run_store_ops fresh_manager sample_ops))
        = [''find key'', ''meet guard'', ''reach the keep'']
   \<and> distinct (active_goals (story_state (run_store_ops fresh_manager sample_ops)))"
proof -
  have h1: "distinct (active_goals (story_state fresh_manager))"
    by (simp add: fresh_manager_lists)
  show ?thesis
    using h1 sample_ops_guarded sample_ops_run
      active_goals_distinct_amended [OF h1 sample_ops_guarded] by simp
qed

lemma complete_goal_goals:
  "active_goals (story_state (complete_goal g m)) = remove1 g (active_goals (story_state m))"
  by (simp add: complete_goal_def active_goals_list_assign remove1_idem)

lemma sample_goal_managers:
  "active_goals (story_state doubled_goal_manager) = [''find key'', ''find key'']"
  "active_goals (story_state single_goal_manager) = [''find key'', ''open gate'']"
  "active_goals (story_state repeated_goal_manager) = [''a'', ''b'', ''a'']"
  by (simp_all add: doubled_goal_manager_def single_goal_manager_def repeated_goal_manager_def
        set_active_goals_def active_goals_def deref_def fresh_manager_def StoryManager_init_def)

text \<open>
  Claim C8 as stated fails when a goal occurs twice among the active goals: the second
  \<open>complete_goal\<close> removes the second occurrence, so it is not a no-op.
\<close>

theorem complete_goal_twice_counterexample:
  "complete_goal ''find key'' (complete_goal ''find key'' doubled_goal_manager)
     \<noteq> complete_goal ''find key'' doubled_goal_manager"
proof
  assume "complete_goal ''find key'' (complete_goal ''find key'' doubled_goal_manager)
            = complete_goal ''find key'' doubled_goal_manager"
  then have "active_goals (story_state (complete_goal ''find key'' (complete_goal ''find key'' doubled_goal_manager)))
            = active_goals (story_state (complete_goal ''find key'' doubled_goal_manager))"
    by simp
  then show False by (simp add: complete_goal_goals sample_goal_managers)
qed

lemma remove1_absent: "count_list xs g \<le> 1 \<Longrightarrow> g \<notin> set (remove1 g xs)"
  by (induction xs) (auto simp: count_list_0_iff split: if_splits)

text \<open>
  Claim C8, amended. In every state \<open>complete_goal g\<close> removes the first occurrence of
  \<open>g\<close> from the active goals and keeps the other entries in order, and when \<open>g\<close> is absent
  it leaves the state unchanged. When \<open>g\<close> occurs at most once (in particular when the
  active goals have no duplicates), \<open>g\<close> is absent afterwards and a second
  \<open>complete_goal g\<close> is a no-op.
\<close>

theorem complete_goal_amended:
  "active_goals (story_state (complete_goal g m)) = remove1 g (active_goals (story_state m))
   \<and> (g \<notin> set (active_goals (story_state m)) \<longrightarrow> complete_goal g m = m)
   \<and> (count_list (active_goals (story_state m)) g \<le> 1 \<longrightarrow>
        g \<notin> set (active_goals (story_state (complete_goal g m)))
        \<and> complete_goal g (complete_goal g m) = complete_goal g m)"
proof -
  have b: "count_list (active_goals (story_state m)) g \<le> 1 \<Longrightarrow>
             g \<notin> set (active_goals (story_state (complete_goal g m)))"
    using remove1_absent [of "active_goals (story_state m)" g] by (simp add: complete_goal_goals)
  have c: "g \<notin> set (active_goals (story_state (complete_goal g m))) \<Longrightarrow>
             complete_goal g (complete_goal g m) = complete_goal g m"
    by (simp add: complete_goal_def [of g "complete_goal g m"])
  have d: "g \<notin> set (active_goals (story_state m)) \<Longrightarrow> complete_goal g m = m"
    by (simp add: complete_goal_def)
  show ?thesis using b c d by (simp add: complete_goal_goals)
qed

theorem complete_goal_amended_witness:
  "count_list (active_goals (story_state single_goal_manager)) ''find key'' \<le> 1
   \<and> ''slay dragon'' \<notin> set (active_goals (story_state single_goal_manager))
   \<and> active_goals (story_state (complete_goal ''find key'' single_goal_manager)) = [''open gate'']
   \<and> complete_goal ''find key'' (complete_goal ''find key'' single_goal_manager)
       = complete_goal ''find key'' single_goal_manager
   \<and> complete_goal ''slay dragon'' single_goal_manager = single_goal_manager
   \<and> active_goals (story_state (complete_goal ''a'' repeated_goal_manager)) = [''b'', ''a'']"
proof -
  have h: "count_list (active_goals (story_state single_goal_manager)) ''find key'' \<le> 1"
    by (simp add: sample_goal_managers)
  have k: "''slay dragon'' \<notin> set (active_goals (story_state single_goal_manager))"
    by (simp add: sample_goal_managers)
  show ?thesis
    using h k complete_goal_amended [of "''find key''" single_goal_manager]
      complete_goal_amended [of "''slay dragon''" single_goal_manager]
      complete_goal_amended [of "''a''" repeated_goal_manager]
    by (simp add: sample_goal_managers)
qed

lemma add_npc_guard: "add_npc guard_personality (Some GPT_OSS_OLLAMA) fresh_game = Inr guard_game"
  by (simp add: add_npc_def guard_game_def guard_agent_def guard_personality_def Let_def
        fresh_game_def GameOrchestrator_init_def)

lemma generate_text_total: "\<not> isl (generate_text ev tg messages temp max_tok)"
  by (simp add: generate_text_def try_except_def first_content_def split: sum.splits list.splits)

section \<open>Text generation never raises\<close>

text \<open>
  Claim C10. For every message list and every generation parameters \<open>generate_text\<close>
  returns and never raises: when the chat-completion call raises, or returns no choice, the
  result is the empty string, and otherwise it is the content of the first choice.
\<close>

theorem generate_text_never_raises:
  "\<not> isl (generate_text ev tg messages temp max_tok)
   \<and> generate_text ev tg messages temp max_tok =
       (case chat_completions_create ev (model_value (tg_model tg)) messages temp max_tok of
          Inl e \<Rightarrow> Inr (Some '''')
        | Inr [] \<Rightarrow> Inr (Some '''')
        | Inr (c # cs) \<Rightarrow> Inr c)"
  by (simp add: generate_text_def try_except_def first_content_def split: sum.splits list.splits)

section \<open>Unknown characters\<close>

text \<open>
  Claim C3. For every input text and every name that is not in the roster,
  \<open>process_player_input\<close> returns an exchange whose character name is \<open>System\<close> and leaves
  the orchestrator as it was: the conversation log, the memories and the story state are
  untouched.
\<close>

theorem unknown_character_no_mutation:
  assumes "nm \<notin> set (list_npcs g)"
  shows "process_player_input ev player_input nm g =
           (Inr \<lparr>de_player_input = Some player_input,
                 de_npc_response = ''I don't know who '' @ nm @ '' is...'',
                 de_npc_name = ''System'', de_emotional_state = None,
                 de_timestamp = clock ev 0\<rparr>, g)"
proof -
  have "get_npc nm g = None"
    using assms by (simp add: get_npc_def dict_get_def list_npcs_def map_of_eq_None_iff)
  then show ?thesis by (simp add: process_player_input_def)
qed

theorem unknown_character_no_mutation_witness:
  "''Ghost'' \<notin> set (list_npcs guard_game)
   \<and> snd (process_player_input hail_env ''hello'' ''Ghost'' guard_game) = guard_game
   \<and> map_sum id de_npc_name (fst (process_player_input hail_env ''hello'' ''Ghost'' guard_game)) = Inr ''System''"
proof -
  have h: "''Ghost'' \<notin> set (list_npcs guard_game)"
    by (simp add: list_npcs_def guard_game_def)
  show ?thesis
    using h unknown_character_no_mutation [OF h, of hail_env "''hello''"] by simp
qed

lemma generate_text_no_content:
  "no_content (chat_completions_create ev (model_value (tg_model tg)) ms temp k) \<Longrightarrow>
   response_or_dots (projr (generate_text ev tg ms temp k)) = ''...''"
  by (cases "chat_completions_create ev (model_value (tg_model tg)) ms temp k" rule: no_content.cases)
     (simp_all add: generate_text_def try_except_def first_content_def response_or_dots_def)

lemma strip_quotes_dots: "strip_quotes ''...'' = ''...''"
  by (simp add: strip_quotes_def startswith_def endswith_def DQ_def SQ_def)

text \<open>
  Claim C5, amended. When the prompt has been built and the chat-completion call raises or
  gives no content, \<open>generate_dialogue\<close> still returns a response and raises nothing: its
  content is the filler \<open>...\<close>, its metadata holds the emotional state and the model and no
  \<open>error\<close> entry, and the exchange is remembered and counted.
\<close>

theorem generation_failure_amended:
  assumes "build_context_prompt ev agent player_input ss = Inr prompt"
    and "no_content (chat_completions_create ev (model_value (tg_model (llm agent)))
           [(''system'', dialogue_system_message), (''user'', prompt)] temp max_tok)"
  shows "generate_dialogue ev t agent player_input ss temp max_tok =
     Inr (\<lparr>action_type = DIALOGUE, content = ''...'', ar_npc_name = name (personality agent),
           metadata = Some [(''emotional_state'', PStr (emotional_state (personality agent))),
                            (''model'', PModel (model agent))],
           ar_timestamp = t\<rparr>,
          agent\<lparr>memory := (memory agent)
             \<lparr>memories := memories (memory agent) @
                 [PDict [(''type'', PStr ''dialogue''), (''player_input'', PStr player_input),
                         (''npc_response'', PStr ''...''),
                         (''timestamp'', PStr (isoformat (timestamp ss)))]],
              player_interactions := player_interactions (memory agent) + 1\<rparr>\<rparr>)"
proof -
  let ?ms = "[(''system'', dialogue_system_message), (''user'', prompt)]"
  obtain r where r: "generate_text ev (llm agent) ?ms temp max_tok = Inr r"
    using generate_text_total [of ev "llm agent" ?ms temp max_tok]
    by (cases "generate_text ev (llm agent) ?ms temp max_tok") simp_all
  have d: "response_or_dots r = ''...''"
    using generate_text_no_content [OF assms(2)] r by simp
  show ?thesis
    using assms(1) r d by (simp add: generate_dialogue_def Let_def strip_quotes_dots)
qed

lemma guard_prompt_built:
  "build_context_prompt failing_env guard_agent ''hello'' (story_state fresh_manager) = Inr guard_prompt"
  by (simp add: guard_prompt_def build_context_prompt_def json_dumps_def fresh_manager_def
        StoryManager_init_def guard_agent_def NPCAgent_init_def Let_def)

lemma failing_env_call:
  "chat_completions_create failing_env tok ms t k = Inl (ClientError ''Connection error.'')"
  by (simp add: failing_env_def failing_client_def)

text \<open>
  Claim C5 as stated fails: with a client that raises, the response content is the filler
  \<open>...\<close>, not the fallback line of the \<open>except\<close> branch, and the metadata has no \<open>error\<close>
  entry, because \<open>generate_text\<close> has already caught the exception.
\<close>

theorem generation_failure_counterexample:
  "map_sum id (content \<circ> fst)
     (generate_dialogue failing_env sample_time guard_agent ''hello'' (story_state fresh_manager)
        (PyFloat 8 (-1)) 100) = Inr ''...''
   \<and> map_sum id (error_entry \<circ> fst)
     (generate_dialogue failing_env sample_time guard_agent ''hello'' (story_state fresh_manager)
        (PyFloat 8 (-1)) 100) = Inr None
   \<and> ''...'' \<noteq> dialogue_fallback"
  by (simp add: generate_dialogue_def guard_prompt_built generate_text_def try_except_def
        failing_env_call response_or_dots_def strip_quotes_dots Let_def
        error_entry_def dict_get_def dialogue_fallback_def)

theorem generation_failure_amended_witness:
  "build_context_prompt failing_env guard_agent ''hello'' (story_state fresh_manager) = Inr guard_prompt
   \<and> no_content (chat_completions_create failing_env (model_value (tg_model (llm guard_agent)))
           [(''system'', dialogue_system_message), (''user'', guard_prompt)] (PyFloat 8 (-1)) 100)
   \<and> map_sum id (content \<circ> fst)
        (generate_dialogue failing_env sample_time guard_agent ''hello'' (story_state fresh_manager)
           (PyFloat 8 (-1)) 100) = Inr ''...''"
proof -
  have h2: "no_content (chat_completions_create failing_env (model_value (tg_model (llm guard_agent)))
           [(''system'', dialogue_system_message), (''user'', guard_prompt)] (PyFloat 8 (-1)) 100)"
    by (simp add: failing_env_call)
  show ?thesis
    using guard_prompt_built h2
      generation_failure_amended [OF guard_prompt_built h2, of sample_time]
    by simp
qed

section \<open>Triggered actions\<close>

text \<open>
  Claim C4 at an unregistered name with an action kind that names no member: the response
  is built from the raw string, which the field \<open>action_type\<close> rejects, so the call raises
  instead of returning a \<open>System\<close> response; the orchestrator is unchanged.
\<close>

theorem unknown_kind_unknown_character_raises:
  "trigger_npc_action hail_env ''Ghost'' ''a noise at the gate'' ''somersault'' guard_game =
     (Inl (ValidationError
        ''Input should be 'dialogue', 'movement', 'emotion', 'interaction' or 'story_event' ''),
      guard_game)"
  by (simp add: trigger_npc_action_def get_npc_def guard_game_def dict_get_def
        validate_action_type_def ActionType_members_def)

lemma somersault_no_member: "ActionType_by_name (upper ''somersault'') = None"
  by (simp add: ActionType_by_name_def ActionType_members_def upper_def upper_char_def Let_def)

lemma generate_action_kind:
  "generate_action ev t agent context ss kind temp = Inr (r, a) \<Longrightarrow> action_type r = kind"
  by (auto simp: generate_action_def Let_def split: sum.splits)

lemma generate_action_returns:
  "build_action_prompt ev agent context ss = Inr prompt \<Longrightarrow>
   \<not> isl (generate_action ev t agent context ss kind temp)"
  by (simp add: generate_action_def Let_def split: sum.splits)

text \<open>
  For a registered character the kind is looked up by member name and falls back to
  \<open>INTERACTION\<close>: with an unknown kind the response carries \<open>INTERACTION\<close>.
\<close>

lemma trigger_npc_action_registered:
  assumes "get_npc nm g = Some npc"
    and "ActionType_by_name (upper kind_text) = None"
    and "build_action_prompt ev npc context ((story_state (story_manager g))\<lparr>timestamp := clock ev 0\<rparr>) = Inr prompt"
  shows "map_sum id action_type (fst (trigger_npc_action ev nm context kind_text g)) = Inr INTERACTION"
proof -
  let ?ss = "(story_state (story_manager g))\<lparr>timestamp := clock ev 0\<rparr>"
  let ?ga = "generate_action ev (clock ev 1) npc context ?ss INTERACTION (temperature (orch_settings g))"
  obtain r a where ra: "?ga = Inr (r, a)"
    using generate_action_returns [OF assms(3), of "clock ev 1" INTERACTION "temperature (orch_settings g)"]
    by (cases ?ga) auto
  have "action_type r = INTERACTION" using generate_action_kind [OF ra] .
  then show ?thesis
    using assms(1,2) ra by (simp add: trigger_npc_action_def Let_def)
qed

section \<open>Persistence\<close>

lemma dict_get_dict_set: "dict_get (dict_set d k v) k = Some v"
  by (induction d) (auto simp: dict_get_def)

lemma dict_set_dict_set: "dict_set (dict_set d k v) k w = dict_set d k w"
  by (induction d) auto

lemma find_model_member: "find_model LLM_Model_members (model_value mdl) = Some mdl"
  by (cases mdl) (simp_all add: LLM_Model_members_def)

lemma find_model_none: "(\<forall>mdl. model_value mdl \<noteq> token) \<Longrightarrow> find_model mdls token = None"
  by (induction mdls) auto

text \<open>
  Where the import succeeds, the loop replaces the token by the member of \<open>LLM_Model\<close>
  whose value equals it and leaves a token that is the value of no member as it is.
\<close>

lemma restore_llm_model_members:
  "restore_llm_model False (dict_set d ''llm_model'' (PStr (model_value mdl)))
     = Inr (dict_set d ''llm_model'' (PModel mdl))"
  "(\<forall>m. model_value m \<noteq> token) \<Longrightarrow>
     restore_llm_model False (dict_set d ''llm_model'' (PStr token))
       = Inr (dict_set d ''llm_model'' (PStr token))"
  by (simp_all add: restore_llm_model_def import_LLM_Model_def dict_get_dict_set dict_set_dict_set
        find_model_member find_model_none)

lemma unknown_token: "\<forall>m. model_value m \<noteq> ''gpt-4o-mini''"
proof
  fix m show "model_value m \<noteq> ''gpt-4o-mini''" by (cases m) simp_all
qed

text \<open>
  With \<open>story\<close> a top-level package, every string token ends \<open>load_state\<close> with the
  \<open>ImportError\<close> of the relative import, whether the token is the value of a member or not:
  the story state, the memories and the log have been replaced by then, the settings are
  the old ones.
\<close>

lemma restore_llm_model_top_level:
  "dict_get d ''llm_model'' = Some (PStr token) \<Longrightarrow>
   restore_llm_model True d = Inl (ImportError ''attempted relative import beyond top-level package'')"
  by (simp add: restore_llm_model_def import_LLM_Model_def)

lemma load_state_token_raises:
  assumes "of_json doc = PDict data"
    and "StoryState_of cs (case dict_get data ''story_state'' of None \<Rightarrow> PDict [] | Some v \<Rightarrow> v) = Inr sv"
    and "(case dict_get data ''npc_memories'' of
            None \<Rightarrow> Inr []
          | Some (PDict kvs) \<Rightarrow> load_memories cs kvs
          | Some _ \<Rightarrow> Inl (AttributeError ''object has no attribute 'items' '')) = Inr mems"
    and "dict_get data ''settings'' = Some (PDict d)"
    and "dict_get d ''llm_model'' = Some (PStr token)"
  shows "load_state cs True (Some doc) m =
           (Some (ImportError ''attempted relative import beyond top-level package''),
            m\<lparr>story_state := new_story_state sv (story_state m),
              npc_memories := mems,
              conversation_history :=
                (case dict_get data ''conversation_history'' of None \<Rightarrow> [] | Some v \<Rightarrow> list_items v)\<rparr>)"
  using assms restore_llm_model_top_level [OF assms(5)]
  by (simp add: load_state_def Let_def settings_argument_def)

text \<open>
  Claim C9 at a file whose settings hold the model token \<open>gpt-4o-mini\<close>, loaded by the
  program as its orchestrator imports it: \<open>load_state\<close> raises \<open>ImportError\<close> at the relative
  import that precedes the loop over the members, so the token is neither restored to a
  member nor left as a string without an error, and the settings stay as they were.
\<close>

theorem load_state_token_import_error:
  "fst (load_state sample_constructors True (Some token_document) fresh_manager)
     = Some (ImportError ''attempted relative import beyond top-level package'')
   \<and> settings (snd (load_state sample_constructors True (Some token_document) fresh_manager))
     = settings fresh_manager"
  by (simp add: load_state_def token_document_def sample_constructors_def default_story_values_def
        dict_get_def settings_argument_def restore_llm_model_def import_LLM_Model_def Let_def)

text \<open>
  Claim C1 at the store left by one dialogue with a registered character: the conversation
  record carries the agent's model, a member of \<open>LLM_Model\<close>, in its metadata, the hook of
  \<open>save_state\<close> only converts \<open>datetime\<close> values, and \<open>save_state\<close> raises \<open>TypeError\<close>
  instead of writing the store.
\<close>

theorem save_after_dialogue_raises:
  "save_state (story_manager (snd (process_player_input hail_env ''hello'' ''Guard'' guard_game)))
     = Inl (TypeError ''Object of type <enum 'LLM_Model'> is not JSON serializable'')"
  by (simp add: process_player_input_def get_npc_def guard_game_def dict_get_def Let_def
        fresh_game_def GameOrchestrator_init_def StoryManager_init_def register_npc_memory_def
        generate_dialogue_def build_context_prompt_def json_dumps_def guard_agent_def NPCAgent_init_def
        generate_text_def try_except_def first_content_def hail_env_def hail_client_def
        response_or_dots_def strip_quotes_def startswith_def endswith_def DQ_def SQ_def
        record_conversation_def exchange_record_def metadata_or_empty_def
        save_state_def save_data_def dump_story_state_def dump_memory_def dump_settings_def
        enum_to_value_def dump_llm_setting_def GameSettings_default_def json_serializer_def
        guard_personality_def constant_clock_def plot_points_def completed_events_def
        active_goals_def deref_def)

section \<open>Saving after a dialogue, loading\<close>

lemma to_json_type_error:
  "(\<forall>x e. hk x = Inl e \<longrightarrow> (\<exists>msg. e = TypeError msg)) \<Longrightarrow>
     to_json hk v = Inl e \<Longrightarrow> \<exists>msg. e = TypeError msg"
  "(\<forall>x e. hk x = Inl e \<longrightarrow> (\<exists>msg. e = TypeError msg)) \<Longrightarrow>
     to_json_list hk vs = Inl e \<Longrightarrow> \<exists>msg. e = TypeError msg"
  "(\<forall>x e. hk x = Inl e \<longrightarrow> (\<exists>msg. e = TypeError msg)) \<Longrightarrow>
     to_json_items hk kvs = Inl e \<Longrightarrow> \<exists>msg. e = TypeError msg"
  by (induction hk v and hk vs and hk kvs arbitrary: e and e and e
        rule: to_json_to_json_list_to_json_items.induct)
     (auto split: sum.splits)

lemma json_serializer_type_error:
  "\<forall>x e. json_serializer x = Inl e \<longrightarrow> (\<exists>msg. e = TypeError msg)"
  by (auto simp: json_serializer_def split: pyval.splits)

lemma to_json_list_fails:
  "v \<in> set vs \<Longrightarrow> isl (to_json hk v) \<Longrightarrow> isl (to_json_list hk vs)"
  by (induction vs) (auto split: sum.splits)

lemma last_n_last: "0 < n \<Longrightarrow> x \<in> set (last_n n (xs @ [x]))"
  by (simp add: last_n_def)

lemma generate_dialogue_metadata:
  assumes "generate_dialogue ev t agent player_input ss temp max_tok = Inr (r, a)"
  shows "metadata r = Some [(''emotional_state'', PStr (emotional_state (personality agent))),
                            (''model'', PModel (model agent))]"
proof -
  obtain prompt where p: "build_context_prompt ev agent player_input ss = Inr prompt"
    using assms by (cases "build_context_prompt ev agent player_input ss") (simp_all add: generate_dialogue_def)
  let ?ms = "[(''system'', dialogue_system_message), (''user'', prompt)]"
  obtain x where x: "generate_text ev (llm agent) ?ms temp max_tok = Inr x"
    using generate_text_total [of ev "llm agent" ?ms temp max_tok]
    by (cases "generate_text ev (llm agent) ?ms temp max_tok") simp_all
  show ?thesis using assms p x by (auto simp: generate_dialogue_def Let_def)
qed

lemma exchange_with_model_fails:
  "to_json json_serializer (exchange_record now p nm r (Some [(k, v), (''model'', PModel mdl)]))
     = (case to_json json_serializer v of
          Inl e \<Rightarrow> Inl e
        | Inr j \<Rightarrow> Inl (TypeError ''Object of type <enum 'LLM_Model'> is not JSON serializable''))"
  by (simp add: exchange_record_def metadata_or_empty_def json_serializer_def split: sum.splits)

lemma save_state_history_fails:
  assumes "isl (to_json_list json_serializer (conversation_history m))"
  shows "\<exists>msg. save_state m = Inl (TypeError msg)"
proof -
  obtain e' where "to_json_list json_serializer (conversation_history m) = Inl e'"
    using assms by (cases "to_json_list json_serializer (conversation_history m)") simp_all
  then have "isl (save_state m)"
    by (simp add: save_state_def save_data_def split: sum.splits)
  then obtain e where e: "save_state m = Inl e" by (cases "save_state m") simp_all
  then show ?thesis
    using to_json_type_error(1) [OF json_serializer_type_error, of "save_data m" e]
    by (simp add: save_state_def)
qed

text \<open>
  The failure of \<open>save_state\<close> does not depend on the sample: after every dialogue with a
  registered character that returned an exchange, whatever the collaborators did,
  \<open>save_state\<close> raises \<open>TypeError\<close>.
\<close>

lemma save_after_any_dialogue_raises:
  assumes "get_npc nm g = Some npc"
    and "process_player_input ev player_input nm g = (Inr x, g')"
  shows "\<exists>msg. save_state (story_manager g') = Inl (TypeError msg)"
proof -
  let ?ss = "(story_state (story_manager g))\<lparr>timestamp := clock ev 0\<rparr>"
  let ?gd = "generate_dialogue ev (clock ev 1) npc player_input ?ss (temperature (orch_settings g)) 100"
  obtain r a where ra: "?gd = Inr (r, a)"
    using assms by (cases ?gd) (auto simp: process_player_input_def Let_def)
  let ?rec = "exchange_record (clock ev 2) player_input nm (content r) (metadata r)"
  have h: "conversation_history (story_manager g') =
             last_n 100 (conversation_history (story_manager g) @ [?rec])"
    using assms ra
    by (auto simp: process_player_input_def Let_def register_npc_memory_def record_conversation_history)
  have "isl (to_json json_serializer ?rec)"
    using generate_dialogue_metadata [OF ra] by (simp add: exchange_with_model_fails json_serializer_def)
  then have "isl (to_json_list json_serializer (conversation_history (story_manager g')))"
    using h to_json_list_fails [of ?rec] last_n_last [of 100 ?rec] by simp
  then show ?thesis by (rule save_state_history_fails)
qed

text \<open>\<open>load_state\<close> leaves the story manager alone when the file is missing, and replaces
  the story state, the memories, the log and the settings by what the document holds.\<close>

lemma load_state_missing_file: "load_state cs top_level None m = (None, m)"
  by (simp add: load_state_def)

lemma load_state_settings:
  assumes "of_json doc = PDict data"
    and "StoryState_of cs (case dict_get data ''story_state'' of None \<Rightarrow> PDict [] | Some v \<Rightarrow> v) = Inr sv"
    and "dict_get data ''npc_memories'' = Some (PDict kvs)"
    and "load_memories cs kvs = Inr mems"
    and "dict_get data ''conversation_history'' = Some (PList h)"
    and "dict_get data ''settings'' = Some (PDict d)"
    and "restore_llm_model top_level d = Inr d'"
    and "GameSettings_of cs (PDict d') = Inr st"
  shows "load_state cs top_level (Some doc) m =
           (None, m\<lparr>story_state := new_story_state sv (story_state m), npc_memories := mems,
                    conversation_history := h, settings := st\<rparr>)"
  using assms by (simp add: load_state_def Let_def settings_argument_def list_items_def)

text \<open>The two instances the specification names: 150 recorded conversations, and the
  completed events of a fresh story manager.\<close>

lemma record_conversation_150:
  "length cs = 150 \<Longrightarrow>
   conversation_history (record_all (StoryManager_init st t0) cs) = drop 50 (map call_record cs)"
  using record_all_history [of "StoryManager_init st t0" cs]
  by (auto simp: StoryManager_init_def last_n_def)

lemma complete_events_fresh:
  "distinct (completed_events (story_state (complete_events (StoryManager_init st t0) es)))
   \<and> set (completed_events (story_state (complete_events (StoryManager_init st t0) es))) = set es"
proof -
  have e: "completed_events (story_state (StoryManager_init st t0)) = []"
    by (simp add: StoryManager_init_def completed_events_def deref_def)
  then have h: "distinct (completed_events (story_state (StoryManager_init st t0)))"
    by simp
  show ?thesis
    using complete_events_distinct [OF h, of es] e by simp
qed

end
